theory Spec2Isabelle
  imports Complex_Main
begin

section \<open>Python values used by yt.py\<close>

text \<open>
  Exceptions are values. Every failure modelled here is an instance of a subclass of
  Python's \<open>Exception\<close>; \<open>AttributeError\<close> is kept apart because
  \<open>getattr(obj, name, default)\<close> absorbs exactly that class. The string is \<open>str(e)\<close>.
\<close>

datatype exn = AttributeError string | Exception string

fun str_exn :: "exn \<Rightarrow> string" where
  "str_exn (AttributeError m) = m"
| "str_exn (Exception m) = m"

text \<open>\<open>x or d\<close> on an optional number: \<open>None\<close> and zero are both falsy.\<close>

definition py_or :: "'a::zero option \<Rightarrow> 'a \<Rightarrow> 'a" where
  "py_or v d = (case v of None \<Rightarrow> d | Some x \<Rightarrow> if x = 0 then d else x)"

text \<open>\<open>int(x)\<close> on a number truncates towards zero.\<close>

definition py_int :: "rat \<Rightarrow> int" where
  "py_int x = (if 0 \<le> x then \<lfloor>x\<rfloor> else \<lceil>x\<rceil>)"

section \<open>Floating-point arithmetic\<close>

text \<open>
  The engine reports times as Python floats, that is IEEE 754 doubles. A double is a
  rational number, and an arithmetic operation on doubles returns the exact result
  rounded to the nearest double, ties to the even significand. \<open>normalise\<close> scales a
  positive number into \<open>[2^52, 2^53)\<close> and counts the exponent (the first argument
  bounds the number of steps, far more than the exponent range of a double needs);
  below the normal range the exponent stays at -1074. Overflow to infinity is outside the
  model.
\<close>

definition two_pow :: "int \<Rightarrow> rat" where
  "two_pow k = (if 0 \<le> k then 2 ^ nat k else 1 / 2 ^ nat (- k))"

fun normalise :: "nat \<Rightarrow> rat \<Rightarrow> int \<Rightarrow> rat \<times> int" where
  "normalise 0 x e = (x, e)"
| "normalise (Suc n) x e =
     (if x < 2 ^ 52 then normalise n (2 * x) (e - 1)
      else if 2 ^ 53 \<le> x then normalise n (x / 2) (e + 1)
      else (x, e))"

definition round_half_even :: "rat \<Rightarrow> int" where
  "round_half_even x =
     (let f = \<lfloor>x\<rfloor>; d = x - of_int f
      in if d < 1 / 2 then f else if 1 / 2 < d then f + 1 else if even f then f else f + 1)"

definition round_double :: "rat \<Rightarrow> rat" where
  "round_double x =
     (if x = 0 then 0
      else
        (let (m, e) = normalise 2200 \<bar>x\<bar> 0;
             (m', e') = (if e < - 1074 then (m * two_pow (e + 1074), - 1074) else (m, e));
             r = of_int (round_half_even m') * two_pow e'
         in if x < 0 then - r else r))"

text \<open>The operators \<open>/\<close>, \<open>*\<close> and \<open>-\<close> on floats.\<close>

definition fdiv :: "rat \<Rightarrow> rat \<Rightarrow> rat" where
  "fdiv a b = round_double (a / b)"

definition fmul :: "rat \<Rightarrow> rat \<Rightarrow> rat" where
  "fmul a b = round_double (a * b)"

definition fsub :: "rat \<Rightarrow> rat \<Rightarrow> rat" where
  "fsub a b = round_double (a - b)"

section \<open>The playback engine and its wrapper \<open>AudioPlayer\<close>\<close>

text \<open>
  The engine object \<open>self.mpv\<close>. Its writable properties \<open>pause\<close> and \<open>volume\<close> are
  fields; the properties the program only reads (\<open>core_idle\<close>, \<open>time_pos\<close>, \<open>duration\<close>)
  hold the outcome of the read, which may be an exception. Every command and property
  write the program issues is appended to \<open>mpv_log\<close>, so that "no call to the engine" is
  a statement about that log. Times are doubles, as the rationals they denote; the
  volume is an integer, as it starts at 80 and only moves by integer steps between integer
  bounds.
\<close>

datatype engine_call = Play string | SetPause bool | SetVolume int

record mpv =
  mpv_pause :: bool
  mpv_volume :: "int option"
  mpv_core_idle :: "exn + bool"
  mpv_time_pos :: "exn + rat option"
  mpv_duration :: "exn + rat option"
  mpv_log :: "engine_call list"

definition play :: "string \<Rightarrow> mpv \<Rightarrow> mpv" where
  "play url m = m\<lparr>mpv_log := mpv_log m @ [Play url]\<rparr>"

definition pause :: "mpv \<Rightarrow> mpv \<times> bool" where
  "pause m =
     (let m' = m\<lparr>mpv_pause := \<not> mpv_pause m,
                 mpv_log := mpv_log m @ [SetPause (\<not> mpv_pause m)]\<rparr>
      in (m', mpv_pause m'))"

definition get_time_pos :: "mpv \<Rightarrow> exn + rat" where
  "get_time_pos m = (case mpv_time_pos m of Inl e \<Rightarrow> Inl e | Inr v \<Rightarrow> Inr (py_or v 0))"

definition get_duration :: "mpv \<Rightarrow> exn + rat" where
  "get_duration m = (case mpv_duration m of Inl e \<Rightarrow> Inl e | Inr v \<Rightarrow> Inr (py_or v 1))"

definition change_volume :: "int \<Rightarrow> mpv \<Rightarrow> mpv \<times> int" where
  "change_volume delta m =
     (let current = py_or (mpv_volume m) 0;
          new_val = max 0 (min 150 (current + delta))
      in (m\<lparr>mpv_volume := Some new_val, mpv_log := mpv_log m @ [SetVolume new_val]\<rparr>,
          new_val))"

text \<open>
  The clamp as the specification words it, for comparison with \<open>change_volume\<close>:
  the sum itself inside the range, the nearer bound outside it.
\<close>

definition clamp_spec :: "int \<Rightarrow> int" where
  "clamp_spec x = (if x < 0 then 0 else if 150 < x then 150 else x)"

section \<open>Formatting\<close>

text \<open>Decimal rendering of integers, as an f-string does it.\<close>

fun str_nat :: "nat \<Rightarrow> string" where
  "str_nat n =
     (if n < 10 then [char_of (48 + n)]
      else str_nat (n div 10) @ [char_of (48 + n mod 10)])"

declare str_nat.simps [simp del]

definition str_int :: "int \<Rightarrow> string" where
  "str_int i = (if i < 0 then CHR ''-'' # str_nat (nat (- i)) else str_nat (nat i))"

text \<open>The format \<open>{x:02d}\<close>: zero padding to width two.\<close>

definition fmt_02d :: "int \<Rightarrow> string" where
  "fmt_02d i = (if 0 \<le> i \<and> i < 10 then CHR ''0'' # str_int i else str_int i)"

text \<open>\<open>str(x)\<close> of an optional string, as interpolated by an f-string.\<close>

definition py_str :: "string option \<Rightarrow> string" where
  "py_str v = (case v of None \<Rightarrow> ''None'' | Some x \<Rightarrow> x)"

text \<open>\<open>YTPlayerApp._fmt_time\<close>.\<close>

definition fmt_time :: "rat option \<Rightarrow> string" where
  "fmt_time seconds =
     (case seconds of
        None \<Rightarrow> ''00:00''
      | Some x \<Rightarrow>
          if x < 0 then ''00:00''
          else
            (let secs = py_int x;
                 m0 = secs div 60; s = secs mod 60;
                 h = m0 div 60; m = m0 mod 60
             in if h \<noteq> 0 then str_int h @ '':'' @ fmt_02d m @ '':'' @ fmt_02d s
                else fmt_02d m @ '':'' @ fmt_02d s))"

section \<open>The application state\<close>

text \<open>
  \<open>SearchResultItem\<close>: the metadata of one result. Title, uploader and id are what
  \<open>entry.get\<close> returned, which can be \<open>None\<close>.
\<close>

record item =
  title_text :: "string option"
  uploader :: "string option"
  video_id :: "string option"
  thumb_url :: string

text \<open>
  Background work started with \<open>run_worker\<close> on the application: a catalog search, a
  stream resolution for a video id, and the download of the now-playing thumbnail.
\<close>

datatype worker =
    PerformSearch string
  | FetchAndPlay "string option"
  | DownloadAndSet string

text \<open>
  The application object with the widgets it updates. \<open>results_list\<close> and
  \<open>results_index\<close> are the children and the cursor of the \<open>#results_list\<close> view;
  \<open>selected_posted\<close> collects the \<open>Selected\<close> messages that
  \<open>action_select_cursor\<close> posts; \<open>notifications\<close> collects the calls of \<open>notify\<close>
  with their severity; \<open>workers\<close> are the workers that have been started and have not
  finished. Widget lookups are taken to succeed, and so are the updates of labels
  whose text does not come from the user.
\<close>

record app =
  player :: mpv
  current_video_id :: "string option"
  current_title :: "string option"
  search_busy :: bool
  results_list :: "item list"
  results_index :: "int option"
  selected_posted :: "item list"
  now_playing_label :: string
  state_label :: string
  status_line :: string
  btn_play_pause :: string
  progress_bar :: "rat \<times> rat"
  progress_label :: string
  elapsed_label :: string
  remaining_label :: string
  notifications :: "(string \<times> string) list"
  workers :: "worker list"

text \<open>The button glyphs, as their UTF-8 bytes.\<close>

definition glyph_play_pause :: string where
  "glyph_play_pause = [char_of (0xE2::nat), char_of (0x8F::nat), char_of (0xAF::nat)]"

definition glyph_play :: string where
  "glyph_play = [char_of (0xE2::nat), char_of (0x96::nat), char_of (0xB6::nat)]"

definition glyph_pause :: string where
  "glyph_pause = [char_of (0xE2::nat), char_of (0x8F::nat), char_of (0xB8::nat)]"

text \<open>
  The state after \<open>AudioPlayer.__init__\<close> and \<open>compose\<close>: volume 80, nothing
  loaded, the labels as composed, no search running.
\<close>

definition initial_mpv :: mpv where
  "initial_mpv =
     \<lparr>mpv_pause = False, mpv_volume = Some 80, mpv_core_idle = Inr True,
      mpv_time_pos = Inr None, mpv_duration = Inr None, mpv_log = [SetVolume 80]\<rparr>"

definition initial_app :: app where
  "initial_app =
     \<lparr>player = initial_mpv, current_video_id = Some [], current_title = Some ''No Media Playing'',
      search_busy = False, results_list = [], results_index = None, selected_posted = [],
      now_playing_label = ''Not Playing'', state_label = ''Stopped'', status_line = [],
      btn_play_pause = glyph_play_pause, progress_bar = (100, 0), progress_label = ''0%'',
      elapsed_label = ''00:00'', remaining_label = ''-00:00'', notifications = [],
      workers = []\<rparr>"

definition notify :: "string \<Rightarrow> string \<Rightarrow> app \<Rightarrow> app" where
  "notify message severity s = s\<lparr>notifications := notifications s @ [(message, severity)]\<rparr>"

text \<open>
  \<open>run_worker(work, exclusive=...)\<close>: the worker joins the running ones; an exclusive
  worker first cancels the application's other workers (they share the default group).
  A cancelled worker stops at its \<open>await\<close> with no further effect.
\<close>

definition run_worker :: "worker \<Rightarrow> bool \<Rightarrow> app \<Rightarrow> app" where
  "run_worker w exclusive s = s\<lparr>workers := (if exclusive then [] else workers s) @ [w]\<rparr>"

section \<open>Search\<close>

text \<open>
  A catalog entry: each key may be absent (\<open>None\<close>), or present with a value that is a
  string or \<open>None\<close>. \<open>dict_get\<close> is \<open>entry.get(key, default)\<close>: the default stands in
  for an absent key only.
\<close>

record raw_entry =
  e_title :: "string option option"
  e_uploader :: "string option option"
  e_id :: "string option option"

definition dict_get :: "'a option option \<Rightarrow> 'a option \<Rightarrow> 'a option" where
  "dict_get v dflt = (case v of None \<Rightarrow> dflt | Some x \<Rightarrow> x)"

definition search_result_item :: "raw_entry \<Rightarrow> item" where
  "search_result_item entry =
     (let title = dict_get (e_title entry) (Some ''Unknown'');
          upl = dict_get (e_uploader entry) (Some ''Unknown'');
          vid_id = dict_get (e_id entry) None;
          thumb = ''https://i.ytimg.com/vi/'' @ py_str vid_id @ ''/hqdefault.jpg''
      in \<lparr>title_text = title, uploader = upl, video_id = vid_id, thumb_url = thumb\<rparr>)"

text \<open>
  \<open>YTPlayerApp.on_input_submitted\<close>. \<open>list_view.clear()\<close> also drops the cursor.
  \<open>Label.update\<close> parses its string as console markup and raises when it is not
  well-formed (a closing tag with nothing open, for one); the status line here
  interpolates the user's query, so the parser is the parameter \<open>markup_error\<close>: the
  exception it raises on a text, if any. That update comes after the busy flag is set and
  before the worker is started. The result is the application when the handler ends and
  the exception that left it, if any.
\<close>

definition on_input_submitted ::
  "(string \<Rightarrow> exn option) \<Rightarrow> string \<Rightarrow> app \<Rightarrow> app \<times> exn option" where
  "on_input_submitted markup_error query s =
     (if query = [] then (s, None)
      else if search_busy s then (notify ''Search already in progress.'' ''warning'' s, None)
      else
        (let s1 = s\<lparr>search_busy := True, results_list := [], results_index := None\<rparr>;
             msg = ''Searching for '' @ [CHR 0x27] @ query @ [CHR 0x27] @ ''...''
         in case markup_error msg of
              Some e \<Rightarrow> (s1, Some e)
            | None \<Rightarrow>
                (run_worker (PerformSearch query) True (s1\<lparr>status_line := msg\<rparr>), None)))"

text \<open>
  \<open>YTPlayerApp.perform_search\<close>, run to its end. The catalog is the parameter
  \<open>extract_info\<close>: it raises, or returns the value of \<open>info.get('entries')\<close>. The
  \<open>finally\<close> clause is the last update, after whichever branch ran.
\<close>

definition perform_search :: "(string \<Rightarrow> exn + raw_entry list option) \<Rightarrow> string \<Rightarrow> app \<Rightarrow> app" where
  "perform_search extract_info query s =
     (let search_term = ''ytsearch15:'' @ query;
          s1 = (case extract_info search_term of
                  Inl e \<Rightarrow>
                    (notify (''Search failed: '' @ str_exn e) ''error'' s)
                      \<lparr>status_line := ''Search failed: '' @ str_exn e\<rparr>
                | Inr None \<Rightarrow>
                    (notify ''No results found.'' ''warning'' s)
                      \<lparr>status_line := ''No results found.''\<rparr>
                | Inr (Some []) \<Rightarrow>
                    (notify ''No results found.'' ''warning'' s)
                      \<lparr>status_line := ''No results found.''\<rparr>
                | Inr (Some (e # es)) \<Rightarrow>
                    (notify ''Search completed.'' ''information''
                       (s\<lparr>results_list := results_list s @ map search_result_item (e # es)\<rparr>))
                      \<lparr>status_line := []\<rparr>)
      in s1\<lparr>search_busy := False, workers := remove1 (PerformSearch query) (workers s1)\<rparr>)"

section \<open>Playback\<close>

text \<open>\<open>ThumbnailWidget.update_image\<close> only starts a download worker.\<close>

definition update_image :: "string \<Rightarrow> app \<Rightarrow> app" where
  "update_image url s = run_worker (DownloadAndSet url) False s"

text \<open>\<open>YTPlayerApp.play_video\<close>.\<close>

definition play_video :: "item \<Rightarrow> app \<Rightarrow> app" where
  "play_video it s =
     run_worker (FetchAndPlay (video_id it)) False
       ((update_image (thumb_url it)
          (s\<lparr>current_title := title_text it, current_video_id := video_id it,
             now_playing_label := ''[b]'' @ py_str (title_text it) @ ''[/b]''\<rparr>))
        \<lparr>state_label := ''Loading'', status_line := []\<rparr>)"

text \<open>
  \<open>YTPlayerApp.fetch_and_play\<close>, run to its end. The extractor is the parameter
  \<open>extract_info\<close>: it raises, or returns the entry \<open>'url'\<close> of the info dictionary when
  there is one; indexing a dictionary without it raises \<open>KeyError('url')\<close>.
\<close>

definition fetch_failed :: "exn \<Rightarrow> app \<Rightarrow> app" where
  "fetch_failed e s =
     (notify (''Error fetching stream: '' @ str_exn e) ''error'' s)
       \<lparr>state_label := ''Error'', status_line := str_exn e\<rparr>"

definition fetch_and_play :: "(string \<Rightarrow> exn + string option) \<Rightarrow> string option \<Rightarrow> app \<Rightarrow> app" where
  "fetch_and_play extract_info vid s =
     (let url = ''https://www.youtube.com/watch?v='' @ py_str vid;
          s1 = (case extract_info url of
                  Inl e \<Rightarrow> fetch_failed e s
                | Inr None \<Rightarrow> fetch_failed (Exception ([CHR 0x27] @ ''url'' @ [CHR 0x27])) s
                | Inr (Some play_url) \<Rightarrow>
                    s\<lparr>player := play play_url (player s), state_label := ''Playing'',
                      status_line := []\<rparr>)
      in s1\<lparr>workers := remove1 (FetchAndPlay vid) (workers s1)\<rparr>)"

text \<open>\<open>YTPlayerApp.on_list_view_selected\<close>: every child of the list is a result item.\<close>

definition on_list_view_selected :: "item \<Rightarrow> app \<Rightarrow> app" where
  "on_list_view_selected it s = play_video it s"

text \<open>\<open>YTPlayerApp.toggle_play_pause\<close>.\<close>

definition toggle_play_pause :: "app \<Rightarrow> app" where
  "toggle_play_pause s =
     (let (m, paused) = pause (player s)
      in s\<lparr>player := m,
           btn_play_pause := (if paused then glyph_play else glyph_pause),
           state_label := (if paused then ''Paused'' else ''Playing'')\<rparr>)"

text \<open>\<open>action_volume_up\<close> and \<open>action_volume_down\<close>.\<close>

definition action_volume_up :: "app \<Rightarrow> app" where
  "action_volume_up s =
     (let (m, vol) = change_volume 5 (player s)
      in notify (''Volume '' @ str_int vol) ''information'' (s\<lparr>player := m\<rparr>))"

definition action_volume_down :: "app \<Rightarrow> app" where
  "action_volume_down s =
     (let (m, vol) = change_volume (- 5) (player s)
      in notify (''Volume '' @ str_int vol) ''information'' (s\<lparr>player := m\<rparr>))"

section \<open>The playlist cursor\<close>

text \<open>
  \<open>ListView.action_select_cursor\<close> posts a \<open>Selected\<close> message for the highlighted
  child, when there is one.
\<close>

definition action_select_cursor :: "app \<Rightarrow> app" where
  "action_select_cursor s =
     (case results_index s of
        None \<Rightarrow> s
      | Some i \<Rightarrow>
          if 0 \<le> i \<and> i < int (length (results_list s))
          then s\<lparr>selected_posted := selected_posted s @ [results_list s ! nat i]\<rparr>
          else s)"

text \<open>\<open>YTPlayerApp.shift_selection\<close>, and \<open>next_item\<close> and \<open>prev_item\<close> that call it.\<close>

definition shift_selection :: "int \<Rightarrow> bool \<Rightarrow> app \<Rightarrow> app" where
  "shift_selection delta autoplay s =
     (if results_list s \<noteq> [] then
        (let idx = py_or (results_index s) 0;
             new_idx = max 0 (min (int (length (results_list s)) - 1) (idx + delta));
             s1 = action_select_cursor (s\<lparr>results_index := Some new_idx\<rparr>)
         in if autoplay then play_video (results_list s1 ! nat new_idx) s1 else s1)
      else s)"

definition next_item :: "app \<Rightarrow> app" where
  "next_item s = shift_selection 1 True s"

definition prev_item :: "app \<Rightarrow> app" where
  "prev_item s = shift_selection (- 1) True s"





section \<open>The progress poller\<close>

text \<open>
  \<open>getattr(self.player.mpv, "core_idle", False)\<close>: a missing attribute gives the
  default, any other exception goes on.
\<close>

definition getattr_core_idle :: "mpv \<Rightarrow> exn + bool" where
  "getattr_core_idle m =
     (case mpv_core_idle m of
        Inl (AttributeError _) \<Rightarrow> Inr False
      | Inl e \<Rightarrow> Inl e
      | Inr b \<Rightarrow> Inr b)"

text \<open>
  The statements inside the \<open>try\<close> of \<open>YTPlayerApp.update_progress\<close>. The three reads
  of the engine come before every update of the display, so an exception leaves the
  application as it was. (\<open>cur\<close> is the source's \<open>curr\<close>.)
\<close>

definition update_progress_body :: "app \<Rightarrow> exn + app" where
  "update_progress_body s =
     (case getattr_core_idle (player s) of
        Inl e \<Rightarrow> Inl e
      | Inr idle \<Rightarrow>
          if idle then Inr s
          else
            (case get_time_pos (player s) of
               Inl e \<Rightarrow> Inl e
             | Inr cur \<Rightarrow>
                 (case get_duration (player s) of
                    Inl e \<Rightarrow> Inl e
                  | Inr total0 \<Rightarrow>
                      (let total = (if total0 = 0 \<or> total0 \<le> 0 then max cur 1 else total0)
                       in if 0 < total then
                            (let percent = py_int (fmul (fdiv cur total) 100);
                                 remaining = max (fsub total cur) 0
                             in Inr (s\<lparr>progress_bar := (total, cur),
                                       progress_label := str_int percent @ ''%'',
                                       elapsed_label := fmt_time (Some cur),
                                       remaining_label := CHR ''-'' # fmt_time (Some remaining)\<rparr>))
                          else Inr s))))"

text \<open>\<open>YTPlayerApp.update_progress\<close>: \<open>except Exception: pass\<close> around the body.\<close>

definition update_progress :: "app \<Rightarrow> exn + app" where
  "update_progress s =
     (case update_progress_body s of
        Inl e \<Rightarrow> Inr s
      | Inr s' \<Rightarrow> Inr s')"

section \<open>The thumbnail cache\<close>








section \<open>Runs of the application\<close>

text \<open>
  What can happen to the application: the user's actions, the delivery of a posted
  \<open>Selected\<close> message, a timer tick, and the end of a running worker (a worker that is
  not running cannot end). A search worker ends with the catalog's answer, a resolution
  worker with the extractor's; the thumbnail download changes no field of the
  application. A run goes on from the state a handler left, also when an exception left
  the handler.
\<close>

datatype event =
    Submit string
  | SearchEnds "string \<Rightarrow> exn + raw_entry list option"
  | ListSelected item
  | DeliverSelected
  | ResolveEnds "string option" "string \<Rightarrow> exn + string option"
  | DownloadEnds string
  | NextItem
  | PrevItem
  | TogglePlayPause
  | VolumeUp
  | VolumeDown
  | Tick

fun running_searches :: "worker list \<Rightarrow> string list" where
  "running_searches [] = []"
| "running_searches (PerformSearch q # ws) = q # running_searches ws"
| "running_searches (w # ws) = running_searches ws"

fun step :: "(string \<Rightarrow> exn option) \<Rightarrow> event \<Rightarrow> app \<Rightarrow> app" where
  "step markup_error (Submit query) s = fst (on_input_submitted markup_error query s)"
| "step markup_error (SearchEnds extract_info) s =
     (case running_searches (workers s) of
        [] \<Rightarrow> s
      | q # _ \<Rightarrow> perform_search extract_info q s)"
| "step markup_error (ListSelected it) s = on_list_view_selected it s"
| "step markup_error DeliverSelected s =
     (case selected_posted s of
        [] \<Rightarrow> s
      | it # rest \<Rightarrow> on_list_view_selected it (s\<lparr>selected_posted := rest\<rparr>))"
| "step markup_error (ResolveEnds vid extract_info) s =
     (if FetchAndPlay vid \<in> set (workers s) then fetch_and_play extract_info vid s else s)"
| "step markup_error (DownloadEnds url) s =
     s\<lparr>workers := remove1 (DownloadAndSet url) (workers s)\<rparr>"
| "step markup_error NextItem s = next_item s"
| "step markup_error PrevItem s = prev_item s"
| "step markup_error TogglePlayPause s = toggle_play_pause s"
| "step markup_error VolumeUp s = action_volume_up s"
| "step markup_error VolumeDown s = action_volume_down s"
| "step markup_error Tick s = (case update_progress s of Inl e \<Rightarrow> s | Inr s' \<Rightarrow> s')"

fun run :: "(string \<Rightarrow> exn option) \<Rightarrow> event list \<Rightarrow> app \<Rightarrow> app" where
  "run markup_error [] s = s"
| "run markup_error (e # es) s = run markup_error es (step markup_error e s)"

text \<open>
  The invariant of the search coordinator: at most one search worker runs, and the busy
  flag is set while one does.
\<close>

definition search_inv :: "app \<Rightarrow> bool" where
  "search_inv s =
     (length (running_searches (workers s)) \<le> 1 \<and>
      (running_searches (workers s) = [] \<or> search_busy s))"

section \<open>Concrete inputs\<close>

text \<open>Two results with different ids, and an extractor that resolves both.\<close>

definition item_a :: item where
  "item_a = \<lparr>title_text = Some ''A'', uploader = Some ''u'', video_id = Some ''idA'',
     thumb_url = ''https://i.ytimg.com/vi/idA/hqdefault.jpg''\<rparr>"

definition item_b :: item where
  "item_b = \<lparr>title_text = Some ''B'', uploader = Some ''u'', video_id = Some ''idB'',
     thumb_url = ''https://i.ytimg.com/vi/idB/hqdefault.jpg''\<rparr>"

definition resolver :: "string \<Rightarrow> exn + string option" where
  "resolver url =
     (if url = ''https://www.youtube.com/watch?v=idA'' then Inr (Some ''urlA'')
      else if url = ''https://www.youtube.com/watch?v=idB'' then Inr (Some ''urlB'')
      else Inl (Exception ''unavailable''))"


text \<open>
  Two markup parsers: one that accepts every text, and one that rejects the status line
  made from the query \<open>[/b]\<close>, a closing tag with nothing open.
\<close>

definition accepts_all :: "string \<Rightarrow> exn option" where
  "accepts_all msg = None"


text \<open>A catalog entry, and the application while the search for "lofi" runs.\<close>

definition busy_app :: app where
  "busy_app = fst (on_input_submitted accepts_all ''lofi'' initial_app)"

text \<open>
  An engine that plays (not idle) and reports the given position and duration, and the
  application around it; the engine at position 5 of 10 whose idle flag is a missing
  attribute; an engine whose position cannot be read.
\<close>

definition engine_at :: "rat option \<Rightarrow> rat option \<Rightarrow> mpv" where
  "engine_at p d =
     initial_mpv\<lparr>mpv_core_idle := Inr False, mpv_time_pos := Inr p, mpv_duration := Inr d\<rparr>"

definition app_at :: "rat option \<Rightarrow> rat option \<Rightarrow> app" where
  "app_at p d = initial_app\<lparr>player := engine_at p d\<rparr>"

definition no_idle_attribute :: mpv where
  "no_idle_attribute =
     (engine_at (Some 5) (Some 10))\<lparr>mpv_core_idle := Inl (AttributeError ''core_idle'')\<rparr>"

definition failing_engine :: mpv where
  "failing_engine =
     initial_mpv\<lparr>mpv_core_idle := Inr False,
       mpv_time_pos := Inl (Exception ''property unavailable''),
       mpv_duration := Inr (Some 10)\<rparr>"








section \<open>Projections of the handlers\<close>

lemma running_searches_append:
  "running_searches (ws @ vs) = running_searches ws @ running_searches vs"
  by (induction ws rule: running_searches.induct) simp_all

lemma running_searches_remove1_other:
  "running_searches [w] = [] \<Longrightarrow> running_searches (remove1 w ws) = running_searches ws"
  by (induction ws rule: running_searches.induct) (cases w; auto)+

lemma running_searches_remove1_search:
  "running_searches ws = q # qs \<Longrightarrow> running_searches (remove1 (PerformSearch q) ws) = qs"
  by (induction ws rule: running_searches.induct) auto

lemma workers_play_video:
  "workers (play_video it s) =
     workers s @ [DownloadAndSet (thumb_url it), FetchAndPlay (video_id it)]"
  by (simp add: play_video_def update_image_def run_worker_def)

lemma search_busy_play_video: "search_busy (play_video it s) = search_busy s"
  by (simp add: play_video_def update_image_def run_worker_def)






lemma workers_fetch_and_play:
  "workers (fetch_and_play ei vid s) = remove1 (FetchAndPlay vid) (workers s)"
  by (simp add: fetch_and_play_def fetch_failed_def notify_def Let_def
      split: sum.splits option.splits)

lemma search_busy_fetch_and_play: "search_busy (fetch_and_play ei vid s) = search_busy s"
  by (simp add: fetch_and_play_def fetch_failed_def notify_def Let_def
      split: sum.splits option.splits)

lemma workers_perform_search:
  "workers (perform_search ei q s) = remove1 (PerformSearch q) (workers s)"
  by (simp add: perform_search_def notify_def Let_def
      split: sum.splits option.splits list.splits)

lemma search_busy_perform_search: "search_busy (perform_search ei q s) = False"
  by (simp add: perform_search_def Let_def)

lemma workers_action_select_cursor: "workers (action_select_cursor s) = workers s"
  by (simp add: action_select_cursor_def split: option.splits)

lemma search_busy_action_select_cursor:
  "search_busy (action_select_cursor s) = search_busy s"
  by (simp add: action_select_cursor_def split: option.splits)

lemma update_progress_total: "\<exists>s'. update_progress s = Inr s'"
  by (simp add: update_progress_def split: sum.splits)

lemma update_progress_fields:
  "update_progress s = Inr s' \<Longrightarrow> workers s' = workers s \<and> search_busy s' = search_busy s"
  by (auto simp: update_progress_def update_progress_body_def Let_def
      split: sum.splits if_splits)

section \<open>Stale stream resolutions\<close>

text \<open>
  Item A is selected, then item B, and both resolutions are still running. B's resolution
  ends and the engine plays B's stream; then A's resolution ends. Its result is not
  discarded: the engine is told to play A's stream while the current selection is still B.
\<close>

theorem stale_resolution_counterexample:
  "current_video_id (play_video item_b (play_video item_a initial_app)) = video_id item_b \<and>
   video_id item_a \<noteq> video_id item_b \<and>
   FetchAndPlay (video_id item_a)
     \<in> set (workers (play_video item_b (play_video item_a initial_app))) \<and>
   mpv_log (player (fetch_and_play resolver (video_id item_b)
        (play_video item_b (play_video item_a initial_app)))) =
     [SetVolume 80, Play ''urlB''] \<and>
   mpv_log (player (fetch_and_play resolver (video_id item_a)
      (fetch_and_play resolver (video_id item_b)
        (play_video item_b (play_video item_a initial_app))))) =
     [SetVolume 80, Play ''urlB'', Play ''urlA''] \<and>
   current_video_id (fetch_and_play resolver (video_id item_a)
      (fetch_and_play resolver (video_id item_b)
        (play_video item_b (play_video item_a initial_app)))) = video_id item_b"
  by (simp add: fetch_and_play_def play_video_def update_image_def run_worker_def play_def
      resolver_def item_a_def item_b_def initial_app_def initial_mpv_def py_str_def Let_def)

text \<open>
  C1, as the code has it. For every state and every pair of selections A then B, the
  result of A's resolution that arrives after B became the current selection is applied
  without any comparison with the current selection: when the extractor returns a stream
  URL, the engine is told to play it and the state label becomes "Playing"; when the
  extractor fails (or its answer has no URL), the engine is left alone and the state label
  becomes "Error", with the message on the status line. In each case the current video id
  and title remain B's.
\<close>

theorem stale_resolution_applied:
  assumes "extract_info (''https://www.youtube.com/watch?v='' @ py_str (video_id a)) = r"
  shows "let s1 = play_video b (play_video a s);
             s2 = fetch_and_play extract_info (video_id a) s1
         in current_video_id s2 = video_id b \<and> current_title s2 = title_text b \<and>
            (case r of
               Inr (Some play_url) \<Rightarrow>
                 mpv_log (player s2) = mpv_log (player s1) @ [Play play_url] \<and>
                 state_label s2 = ''Playing'' \<and> status_line s2 = []
             | Inr None \<Rightarrow>
                 mpv_log (player s2) = mpv_log (player s1) \<and> state_label s2 = ''Error'' \<and>
                 status_line s2 = [CHR 0x27] @ ''url'' @ [CHR 0x27]
             | Inl e \<Rightarrow>
                 mpv_log (player s2) = mpv_log (player s1) \<and> state_label s2 = ''Error'' \<and>
                 status_line s2 = str_exn e)"
  using assms
  by (simp add: fetch_and_play_def fetch_failed_def notify_def play_video_def
      update_image_def run_worker_def play_def Let_def split: sum.splits option.splits)

theorem stale_resolution_applied_witness:
  "resolver (''https://www.youtube.com/watch?v='' @ py_str (video_id item_a)) =
     Inr (Some ''urlA'') \<and>
   current_video_id (fetch_and_play resolver (video_id item_a)
      (play_video item_b (play_video item_a initial_app))) = Some ''idB'' \<and>
   mpv_log (player (fetch_and_play resolver (video_id item_a)
      (play_video item_b (play_video item_a initial_app)))) =
     mpv_log (player (play_video item_b (play_video item_a initial_app))) @ [Play ''urlA''] \<and>
   state_label (fetch_and_play resolver (video_id item_a)
      (play_video item_b (play_video item_a initial_app))) = ''Playing'' \<and>
   state_label (fetch_and_play (\<lambda>u. Inl (Exception ''unavailable'')) (video_id item_a)
      (play_video item_b (play_video item_a initial_app))) = ''Error'' \<and>
   current_video_id (fetch_and_play (\<lambda>u. Inl (Exception ''unavailable'')) (video_id item_a)
      (play_video item_b (play_video item_a initial_app))) = Some ''idB''"
proof -
  have r: "resolver (''https://www.youtube.com/watch?v='' @ py_str (video_id item_a)) =
      Inr (Some ''urlA'')"
    by (simp add: resolver_def item_a_def py_str_def)
  have b: "video_id item_b = Some ''idB''"
    by (simp add: item_b_def)
  show ?thesis
    using stale_resolution_applied
        [of resolver item_a "Inr (Some ''urlA'')" item_b initial_app]
      stale_resolution_applied
        [of "\<lambda>u. Inl (Exception ''unavailable'')" item_a "Inl (Exception ''unavailable'')"
          item_b initial_app]
      r b
    by (simp add: Let_def)
qed

section \<open>The progress display with no duration\<close>

text \<open>
  \<open>get_duration\<close> never returns zero: it has already replaced a missing or zero duration
  by 1. So the test \<open>not total\<close> of \<open>update_progress\<close> never fires, and the substitution
  \<open>max(curr, 1)\<close> is reached for a negative duration only.
\<close>

lemma get_duration_nonzero: "get_duration m = Inr d \<Longrightarrow> d \<noteq> 0"
  by (auto simp: get_duration_def py_or_def split: sum.splits option.splits if_splits)

text \<open>
  C2, where the code departs from it. With the engine at position 5 and reporting
  duration 0, or no duration at all, the tick sets the bar's total to 1 and displays
  500%, where the specification has the total \<open>max(5, 1) = 5\<close> and 100%. At
  position 0 the display is 0%, as specified.
\<close>

theorem update_progress_zero_duration_500:
  "update_progress (app_at (Some 5) (Some 0)) =
     Inr ((app_at (Some 5) (Some 0))
       \<lparr>progress_bar := (1, 5), progress_label := ''500%'',
        elapsed_label := ''00:05'', remaining_label := ''-00:00''\<rparr>) \<and>
   update_progress (app_at (Some 5) None) =
     Inr ((app_at (Some 5) None)
       \<lparr>progress_bar := (1, 5), progress_label := ''500%'',
        elapsed_label := ''00:05'', remaining_label := ''-00:00''\<rparr>) \<and>
   update_progress (app_at (Some 0) (Some 0)) =
     Inr ((app_at (Some 0) (Some 0))
       \<lparr>progress_bar := (1, 0), progress_label := ''0%'',
        elapsed_label := ''00:00'', remaining_label := ''-00:01''\<rparr>)"
  by code_simp

section \<open>Single-flight search\<close>

lemma search_inv_play_video: "search_inv s \<Longrightarrow> search_inv (play_video it s)"
  by (simp add: search_inv_def workers_play_video search_busy_play_video
      running_searches_append)

lemma search_inv_shift_selection: "search_inv s \<Longrightarrow> search_inv (shift_selection d a s)"
  by (simp add: shift_selection_def Let_def search_inv_def workers_play_video
      search_busy_play_video running_searches_append workers_action_select_cursor
      search_busy_action_select_cursor)

lemma search_inv_on_input_submitted:
  "search_inv s \<Longrightarrow> search_inv (fst (on_input_submitted me q s))"
  by (auto simp: on_input_submitted_def search_inv_def notify_def run_worker_def Let_def
      split: option.splits)

lemma search_inv_perform_search:
  "search_inv s \<Longrightarrow> running_searches (workers s) = q # qs \<Longrightarrow>
   search_inv (perform_search ei q s)"
  by (cases qs)
    (simp_all add: search_inv_def workers_perform_search search_busy_perform_search
      running_searches_remove1_search)

lemma search_inv_fetch_and_play: "search_inv s \<Longrightarrow> search_inv (fetch_and_play ei vid s)"
  by (simp add: search_inv_def workers_fetch_and_play search_busy_fetch_and_play
      running_searches_remove1_other)

lemma search_inv_toggle_play_pause: "search_inv s \<Longrightarrow> search_inv (toggle_play_pause s)"
  by (simp add: search_inv_def toggle_play_pause_def pause_def Let_def)

lemma search_inv_volume:
  "search_inv s \<Longrightarrow> search_inv (action_volume_up s)"
  "search_inv s \<Longrightarrow> search_inv (action_volume_down s)"
  by (simp_all add: search_inv_def action_volume_up_def action_volume_down_def notify_def
      change_volume_def Let_def)

lemma search_inv_step: "search_inv s \<Longrightarrow> search_inv (step me e s)"
proof (cases e)
  case (SearchEnds ei)
  assume "search_inv s"
  then show ?thesis using SearchEnds
    by (auto simp: search_inv_perform_search split: list.splits)
next
  case Tick
  assume inv: "search_inv s"
  obtain s' where s': "update_progress s = Inr s'"
    using update_progress_total by blast
  with inv update_progress_fields [OF s'] show ?thesis using Tick
    by (simp add: search_inv_def)
next
  case (DownloadEnds url)
  assume "search_inv s"
  then show ?thesis using DownloadEnds
    by (simp add: search_inv_def running_searches_remove1_other)
next
  case DeliverSelected
  assume inv: "search_inv s"
  then have "search_inv (s\<lparr>selected_posted := rest\<rparr>)" for rest
    by (simp add: search_inv_def)
  then show ?thesis using DeliverSelected inv
    by (simp add: on_list_view_selected_def search_inv_play_video split: list.splits)
qed (simp_all add: search_inv_on_input_submitted on_list_view_selected_def
    search_inv_play_video search_inv_fetch_and_play next_item_def prev_item_def
    search_inv_shift_selection search_inv_toggle_play_pause search_inv_volume)

lemma search_inv_run: "search_inv s \<Longrightarrow> search_inv (run me es s)"
  by (induction es arbitrary: s) (simp_all add: search_inv_step)

lemma search_inv_initial: "search_inv initial_app"
  by (simp add: search_inv_def initial_app_def)

lemma search_inv_at_most_one:
  "search_inv s \<Longrightarrow> length (running_searches (workers s)) \<le> 1"
  by (simp add: search_inv_def)

lemma busy_app_fields:
  "search_busy busy_app" "workers busy_app = [PerformSearch ''lofi'']"
  "notifications busy_app = []" "results_list busy_app = []"
  by (simp_all add: busy_app_def on_input_submitted_def accepts_all_def initial_app_def
      run_worker_def Let_def)

text \<open>
  C3. A submit of a non-empty query while the busy flag is set raises nothing and changes
  nothing but the notifications, which gain the warning "Search already in progress.":
  the result list, the busy flag and the running workers are as before. And after every
  run of events from the initial state, whatever the markup parser accepts, at most one
  search worker is running.
\<close>

theorem busy_submit_rejected:
  "(search_busy s \<and> query \<noteq> [] \<longrightarrow>
      on_input_submitted markup_error query s =
        (s\<lparr>notifications :=
             notifications s @ [(''Search already in progress.'', ''warning'')]\<rparr>, None)) \<and>
   length (running_searches (workers (run markup_error es initial_app))) \<le> 1"
  using search_inv_at_most_one [OF search_inv_run [OF search_inv_initial]]
  by (simp add: on_input_submitted_def notify_def)

theorem busy_submit_rejected_witness:
  "search_busy busy_app \<and> ''jazz'' \<noteq> [] \<and>
   snd (on_input_submitted accepts_all ''jazz'' busy_app) = None \<and>
   results_list (fst (on_input_submitted accepts_all ''jazz'' busy_app)) =
     results_list busy_app \<and>
   search_busy (fst (on_input_submitted accepts_all ''jazz'' busy_app)) \<and>
   workers (fst (on_input_submitted accepts_all ''jazz'' busy_app)) =
     [PerformSearch ''lofi''] \<and>
   notifications (fst (on_input_submitted accepts_all ''jazz'' busy_app)) =
     [(''Search already in progress.'', ''warning'')] \<and>
   length (running_searches
     (workers (run accepts_all [Submit ''lofi'', Submit ''jazz''] initial_app))) \<le> 1"
proof -
  have q: "''jazz'' \<noteq> []"
    by simp
  note t = busy_submit_rejected
    [of busy_app "''jazz''" accepts_all "[Submit ''lofi'', Submit ''jazz'']"]
  from t busy_app_fields(1) q
  have e: "on_input_submitted accepts_all ''jazz'' busy_app =
      (busy_app\<lparr>notifications :=
         notifications busy_app @ [(''Search already in progress.'', ''warning'')]\<rparr>, None)"
    by blast
  show ?thesis
    using t q busy_app_fields by (simp add: e)
qed



section \<open>The thumbnail cache policy\<close>



section \<open>The playlist cursor\<close>










section \<open>Pause while nothing plays\<close>

text \<open>
  In the initial state (label "Stopped", nothing loaded) and in the state right after a
  selection (label "Loading"), \<open>toggle_play_pause\<close> writes the engine's pause property
  and changes the state label to "Paused".
\<close>

theorem toggle_pause_idle_loading_counterexample:
  "state_label initial_app = ''Stopped'' \<and> workers initial_app = [] \<and>
   mpv_log (player (toggle_play_pause initial_app)) = [SetVolume 80, SetPause True] \<and>
   toggle_play_pause initial_app \<noteq> initial_app \<and>
   state_label (play_video item_a initial_app) = ''Loading'' \<and>
   mpv_log (player (toggle_play_pause (play_video item_a initial_app))) =
     [SetVolume 80, SetPause True] \<and>
   state_label (toggle_play_pause (play_video item_a initial_app)) = ''Paused''"
  by (simp add: toggle_play_pause_def pause_def Let_def initial_app_def initial_mpv_def
      play_video_def update_image_def run_worker_def)

text \<open>
  C7, as the code has it. In every state of the application, whatever the state label,
  \<open>toggle_play_pause\<close> makes exactly one call to the engine: it writes the negation of
  the engine's pause flag; and it sets the state label to "Paused" or "Playing" after the
  flag the engine then reports.
\<close>

theorem toggle_play_pause_always_calls_engine:
  "mpv_log (player (toggle_play_pause s)) =
     mpv_log (player s) @ [SetPause (\<not> mpv_pause (player s))] \<and>
   mpv_pause (player (toggle_play_pause s)) = (\<not> mpv_pause (player s)) \<and>
   state_label (toggle_play_pause s) =
     (if mpv_pause (player s) then ''Playing'' else ''Paused'')"
  by (simp add: toggle_play_pause_def pause_def Let_def)

section \<open>Volume\<close>

text \<open>
  C8. For every engine state and every integer delta, \<open>change_volume\<close> returns
  \<open>clamp(v + delta, 0, 150)\<close>, where \<open>v\<close> is the engine's current level read as 0 when
  it is unknown, and writes exactly that value back to the engine's volume. The function
  takes and changes the engine only, so no session state enters the result. The level need
  not even lie in \<open>[0,150]\<close> beforehand.
\<close>

theorem change_volume_clamps:
  "change_volume d m =
     (m\<lparr>mpv_volume := Some (clamp_spec ((case mpv_volume m of None \<Rightarrow> 0 | Some v \<Rightarrow> v) + d)),
        mpv_log := mpv_log m @
          [SetVolume (clamp_spec ((case mpv_volume m of None \<Rightarrow> 0 | Some v \<Rightarrow> v) + d))]\<rparr>,
      clamp_spec ((case mpv_volume m of None \<Rightarrow> 0 | Some v \<Rightarrow> v) + d))"
  by (cases "mpv_volume m") (auto simp: change_volume_def clamp_spec_def py_or_def Let_def)

section \<open>Failures during a tick\<close>

text \<open>
  The read of the idle flag raises \<open>AttributeError\<close>; position 5 and duration 10 are
  read without failure. The tick does not leave the display alone: it shows 50%.
\<close>

theorem tick_attribute_error_counterexample:
  "mpv_core_idle (player (initial_app\<lparr>player := no_idle_attribute\<rparr>)) =
     Inl (AttributeError ''core_idle'') \<and>
   progress_label (initial_app\<lparr>player := no_idle_attribute\<rparr>) = ''0%'' \<and>
   update_progress (initial_app\<lparr>player := no_idle_attribute\<rparr>) =
     Inr ((initial_app\<lparr>player := no_idle_attribute\<rparr>)
       \<lparr>progress_bar := (10, 5), progress_label := ''50%'',
        elapsed_label := ''00:05'', remaining_label := ''-00:05''\<rparr>)"
  by code_simp

text \<open>
  C9, as the code has it. A tick always returns normally, so no exception reaches the
  timer that calls it. When the read of the position or of the duration raises, or the
  read of the idle flag raises anything but \<open>AttributeError\<close>, the tick returns the
  application unchanged: no label and no bar is updated. An \<open>AttributeError\<close> from the
  read of the idle flag is absorbed by the default of \<open>getattr\<close>: the flag is taken as
  "not idle" and the tick goes on exactly as with an engine that reports so.
\<close>

theorem update_progress_swallows_failures:
  "(\<exists>s'. update_progress s = Inr s') \<and>
   ((\<exists>m. mpv_core_idle (player s) = Inl (Exception m)) \<or>
    isl (mpv_time_pos (player s)) \<or> isl (mpv_duration (player s))
      \<longrightarrow> update_progress s = Inr s) \<and>
   ((\<exists>m. mpv_core_idle (player s) = Inl (AttributeError m))
      \<longrightarrow> getattr_core_idle (player s) = Inr False \<and>
          update_progress s =
            map_sum id (\<lambda>s'. s'\<lparr>player := player s\<rparr>)
              (update_progress (s\<lparr>player := (player s)\<lparr>mpv_core_idle := Inr False\<rparr>\<rparr>)))"
  by (auto simp: update_progress_def update_progress_body_def getattr_core_idle_def
      get_time_pos_def get_duration_def isl_def Let_def split: sum.splits exn.splits)

theorem update_progress_swallows_failures_witness:
  "isl (mpv_time_pos (player (initial_app\<lparr>player := failing_engine\<rparr>))) \<and>
   mpv_core_idle (player (initial_app\<lparr>player := failing_engine\<rparr>)) = Inr False \<and>
   update_progress (initial_app\<lparr>player := failing_engine\<rparr>) =
     Inr (initial_app\<lparr>player := failing_engine\<rparr>) \<and>
   update_progress
     (initial_app\<lparr>player := (engine_at (Some 5) (Some 10))
        \<lparr>mpv_core_idle := Inl (Exception ''shutdown'')\<rparr>\<rparr>) =
     Inr (initial_app\<lparr>player := (engine_at (Some 5) (Some 10))
        \<lparr>mpv_core_idle := Inl (Exception ''shutdown'')\<rparr>\<rparr>) \<and>
   update_progress
     (initial_app\<lparr>player := (engine_at (Some 5) (Some 10))
        \<lparr>mpv_duration := Inl (Exception ''shutdown'')\<rparr>\<rparr>) =
     Inr (initial_app\<lparr>player := (engine_at (Some 5) (Some 10))
        \<lparr>mpv_duration := Inl (Exception ''shutdown'')\<rparr>\<rparr>) \<and>
   mpv_core_idle (player (initial_app\<lparr>player := no_idle_attribute\<rparr>)) =
     Inl (AttributeError ''core_idle'') \<and>
   getattr_core_idle (player (initial_app\<lparr>player := no_idle_attribute\<rparr>)) = Inr False"
  using update_progress_swallows_failures [of "initial_app\<lparr>player := failing_engine\<rparr>"]
    update_progress_swallows_failures
      [of "initial_app\<lparr>player := (engine_at (Some 5) (Some 10))
             \<lparr>mpv_core_idle := Inl (Exception ''shutdown'')\<rparr>\<rparr>"]
    update_progress_swallows_failures
      [of "initial_app\<lparr>player := (engine_at (Some 5) (Some 10))
             \<lparr>mpv_duration := Inl (Exception ''shutdown'')\<rparr>\<rparr>"]
    update_progress_swallows_failures [of "initial_app\<lparr>player := no_idle_attribute\<rparr>"]
  by (simp add: failing_engine_def no_idle_attribute_def)

section \<open>Empty queries\<close>

text \<open>
  C10. Submitting the empty query returns the application exactly as it was, and raises
  nothing: the busy flag, the result list, the workers, the notifications and the status
  line are all untouched.
\<close>

theorem empty_query_noop: "on_input_submitted markup_error [] s = (s, None)"
  by (simp add: on_input_submitted_def)

end
